theory Spec2Isabelle
  imports Complex_Main "HOL-Library.AList"
begin

section \<open>JavaScript values and the platform the server runs on\<close>

text \<open>
  The server of \<^verbatim>\<open>src/app.js\<close> is one request handler. It uses three facilities of
  the Node.js platform that are not part of the repository: the WHATWG \<^verbatim>\<open>URL\<close>
  constructor, \<^verbatim>\<open>child_process.exec\<close> and the \<^verbatim>\<open>process\<close> object. They are
  parameters of the model (the record \<open>platform\<close>), so every theorem holds for whatever
  these facilities return.
\<close>

text \<open>A JavaScript value, as far as the handler builds or inspects one. Numbers are reals
  (no NaN, no rounding).\<close>

datatype jsval =
    JUndefined
  | JNull
  | JBool bool
  | JNum real
  | JStr string
  | JObj "(string \<times> jsval) list"

text \<open>ToBoolean, which decides \<^verbatim>\<open>x || y\<close>, \<^verbatim>\<open>!x\<close> and \<^verbatim>\<open>x ? a : b\<close>.\<close>

fun truthy :: "jsval \<Rightarrow> bool" where
  "truthy JUndefined = False"
| "truthy JNull = False"
| "truthy (JBool b) = b"
| "truthy (JNum n) = (n \<noteq> 0)"
| "truthy (JStr s) = (s \<noteq> [])"
| "truthy (JObj fs) = True"

text \<open>\<^verbatim>\<open>x || y\<close>\<close>

definition js_or :: "jsval \<Rightarrow> jsval \<Rightarrow> jsval" where
  "js_or x y = (if truthy x then x else y)"


text \<open>\<^verbatim>\<open>x || y\<close> where \<open>x\<close> is a string or undefined and \<open>y\<close> a string.\<close>

definition str_or :: "string option \<Rightarrow> string \<Rightarrow> string" where
  "str_or x y = (case x of None \<Rightarrow> y | Some s \<Rightarrow> if s \<noteq> [] then s else y)"

text \<open>An exception thrown inside the handler; the argument is its message.\<close>

datatype exn = TypeError string

text \<open>The parts of a parsed \<^verbatim>\<open>URL\<close> object the handler reads.\<close>

record URL =
  pathname :: string
  searchParams :: "(string \<times> string) list"

text \<open>\<^verbatim>\<open>searchParams.get(name)\<close>: the first value stored under the name, or null.\<close>

definition searchParams_get :: "URL \<Rightarrow> string \<Rightarrow> string option" where
  "searchParams_get u name = map_of (searchParams u) name"

text \<open>The options object and the callback arguments of \<^verbatim>\<open>exec\<close>. With the default
  encoding both streams arrive as strings, and the message of the error object is a string.\<close>

record exec_options =
  timeout :: nat
  maxBuffer :: nat

record exec_error =
  err_message :: string
  err_code :: jsval
  err_signal :: jsval

record exec_result =
  err :: "exec_error option"
  stdout :: string
  stderr :: string

record platform =
  URL_new :: "string \<Rightarrow> string \<Rightarrow> exn + URL"
  exec :: "string \<Rightarrow> exec_options \<Rightarrow> exec_result"
  process_version :: string
  process_platform :: string
  process_uptime :: real
  Date_toISOString :: string

section \<open>Configuration (lines 5 to 17)\<close>

record environment =
  env_PORT :: "string option"
  env_ADMIN_API_KEY :: "string option"

record config =
  PORT :: string
  REQUIRE_API_KEY :: bool
  ADMIN_API_KEY :: string

text \<open>\<^verbatim>\<open>PORT = process.env.PORT || 80\<close>, \<^verbatim>\<open>REQUIRE_API_KEY = !!process.env.ADMIN_API_KEY\<close>,
  \<^verbatim>\<open>ADMIN_API_KEY = process.env.ADMIN_API_KEY || ''\<close>. The port is only ever printed, so the
  number 80 is kept as its text.\<close>

definition config_of_env :: "environment \<Rightarrow> config" where
  "config_of_env e =
     \<lparr> PORT = str_or (env_PORT e) ''80'',
       REQUIRE_API_KEY = (case env_ADMIN_API_KEY e of None \<Rightarrow> False | Some k \<Rightarrow> k \<noteq> []),
       ADMIN_API_KEY = str_or (env_ADMIN_API_KEY e) [] \<rparr>"

text \<open>The command registry: an object literal with three own properties.\<close>

definition ALLOWED_COMMANDS :: "(string \<times> string) list" where
  "ALLOWED_COMMANDS =
     [(''uptime'', ''uptime''), (''disk'', ''df -h''), (''memory'', ''free -m'')]"

text \<open>\<^verbatim>\<open>Object.prototype.hasOwnProperty.call(obj, k)\<close> on an object literal given by its own
  properties.\<close>

definition hasOwnProperty :: "(string \<times> 'a) list \<Rightarrow> string \<Rightarrow> bool" where
  "hasOwnProperty obj k = (k \<in> set (map fst obj))"

text \<open>The property names every object literal inherits from \<^verbatim>\<open>Object.prototype\<close>
  (ECMAScript, including the legacy accessors of Annex B). The \<^verbatim>\<open>in\<close> operator, which the
  handler does not use, answers true on these as well as on the own properties.\<close>

definition Object_prototype_properties :: "string list" where
  "Object_prototype_properties =
     [''constructor'', ''hasOwnProperty'', ''isPrototypeOf'', ''propertyIsEnumerable'',
      ''toLocaleString'', ''toString'', ''valueOf'', ''__proto__'',
      ''__defineGetter__'', ''__defineSetter__'', ''__lookupGetter__'', ''__lookupSetter__'']"

definition js_in :: "string \<Rightarrow> (string \<times> 'a) list \<Rightarrow> bool" where
  "js_in k obj = (hasOwnProperty obj k \<or> k \<in> set Object_prototype_properties)"

section \<open>Requests and responses\<close>

text \<open>Node gives the header names in lower case, and one string per header.\<close>

record request =
  req_method :: string
  req_url :: string
  req_headers :: "string \<Rightarrow> string option"

text \<open>What \<^verbatim>\<open>res.end\<close> is given. \<open>JsonText obj\<close> stands for the text
  \<^verbatim>\<open>JSON.stringify(obj, null, 2)\<close>; \<open>IndexPage v p pl s\<close> for the HTML template of lines 44 to
  80 with the version, port, platform and whole seconds of uptime filled in.\<close>

datatype payload =
    Raw string
  | JsonText jsval
  | IndexPage string string string int

record ServerResponse =
  statusCode :: nat
  res_headers :: "(string \<times> string) list"
  res_body :: "payload option"

text \<open>A fresh response object: status 200, no header, not ended.\<close>

definition new_response :: ServerResponse where
  "new_response = \<lparr> statusCode = 200, res_headers = [], res_body = None \<rparr>"

definition setHeader :: "string \<Rightarrow> string \<Rightarrow> ServerResponse \<Rightarrow> ServerResponse" where
  "setHeader name v res = res\<lparr> res_headers := AList.update name v (res_headers res) \<rparr>"

definition writeHead :: "ServerResponse \<Rightarrow> nat \<Rightarrow> (string \<times> string) list \<Rightarrow> ServerResponse" where
  "writeHead res c hs = fold (\<lambda>(k, v). setHeader k v) hs (res\<lparr> statusCode := c \<rparr>)"

definition end_response :: "ServerResponse \<Rightarrow> payload \<Rightarrow> ServerResponse" where
  "end_response res chunk = res\<lparr> res_body := Some chunk \<rparr>"

text \<open>Lines 19 to 22.\<close>

definition sendJson :: "ServerResponse \<Rightarrow> nat \<Rightarrow> jsval \<Rightarrow> ServerResponse" where
  "sendJson res c obj =
     end_response (writeHead res c [(''Content-Type'', ''application/json'')]) (JsonText obj)"

text \<open>What one request leaves behind: the response, and the calls made to \<^verbatim>\<open>exec\<close>.\<close>

record outcome =
  response :: ServerResponse
  executed :: "(string \<times> exec_options) list"

definition reply :: "ServerResponse \<Rightarrow> outcome" where
  "reply res = \<lparr> response = res, executed = [] \<rparr>"


section \<open>The request handler (lines 24 to 161)\<close>

text \<open>The callback given to \<^verbatim>\<open>exec\<close>, lines 126 to 149.\<close>

definition exec_callback ::
  "ServerResponse \<Rightarrow> string \<Rightarrow> exec_error option \<Rightarrow> string \<Rightarrow> string \<Rightarrow> ServerResponse" where
  "exec_callback res commandName er out errout =
     (case er of
        Some e \<Rightarrow>
          (let code = js_or (err_code e) JNull;
               signal = js_or (err_signal e) JNull
           in sendJson res 200
                (JObj [(''command'', JStr commandName),
                       (''allowed'', JBool True),
                       (''error'', JStr (err_message e)),
                       (''exitCode'', code),
                       (''signal'', signal),
                       (''stdout'', JStr (if out \<noteq> [] then out else [])),
                       (''stderr'', JStr (if errout \<noteq> [] then errout else []))]))
      | None \<Rightarrow>
          sendJson res 200
            (JObj [(''command'', JStr commandName),
                   (''allowed'', JBool True),
                   (''stdout'', JStr (if out \<noteq> [] then out else [])),
                   (''stderr'', JStr (if errout \<noteq> [] then errout else []))]))"

text \<open>The header check of lines 103 to 109: true when the request is let through.\<close>

definition api_key_ok :: "config \<Rightarrow> request \<Rightarrow> bool" where
  "api_key_ok cfg req =
     (if REQUIRE_API_KEY cfg
      then (let provided = str_or (req_headers req ''x-api-key'') []
            in \<not> (provided = [] \<or> provided \<noteq> ADMIN_API_KEY cfg))
      else True)"

text \<open>The message of line 113, \<^verbatim>\<open>'Missing "command" query parameter'\<close>; \<open>CHR 0x22\<close> is the
  double quote.\<close>

definition missing_command_message :: string where
  "missing_command_message =
     ''Missing '' @ [CHR 0x22] @ ''command'' @ [CHR 0x22] @ '' query parameter''"

text \<open>Lines 111 to 151: what happens once method and key have been accepted. The callback
  of \<^verbatim>\<open>exec\<close> runs later in the program; here it runs at once on what \<^verbatim>\<open>exec\<close> reports.\<close>

definition run_command :: "platform \<Rightarrow> ServerResponse \<Rightarrow> URL \<Rightarrow> outcome" where
  "run_command plat res fullUrl =
     (case searchParams_get fullUrl ''command'' of
        None \<Rightarrow> reply (sendJson res 400 (JObj [(''error'', JStr missing_command_message)]))
      | Some commandName \<Rightarrow>
          if commandName = [] then
            reply (sendJson res 400 (JObj [(''error'', JStr missing_command_message)]))
          else if \<not> hasOwnProperty ALLOWED_COMMANDS commandName then
            reply (sendJson res 403 (JObj [(''error'', JStr ''Command not allowed'')]))
          else
            (let shellCommand = the (map_of ALLOWED_COMMANDS commandName);
                 opts = \<lparr> timeout = 5000, maxBuffer = 1024 * 1024 \<rparr>;
                 r = exec plat shellCommand opts
             in \<lparr> response = exec_callback res commandName (err r) (stdout r) (stderr r),
                  executed = [(shellCommand, opts)] \<rparr>))"

text \<open>The \<^verbatim>\<open>/cmd\<close> block, lines 95 to 152.\<close>

definition cmd_route :: "platform \<Rightarrow> config \<Rightarrow> request \<Rightarrow> ServerResponse \<Rightarrow> URL \<Rightarrow> outcome" where
  "cmd_route plat cfg req res fullUrl =
     (if req_method req \<noteq> ''GET'' then
        reply (sendJson res 405 (JObj [(''error'', JStr ''Method not allowed. Use GET.'')]))
      else if \<not> api_key_ok cfg req then
        reply (sendJson res 401 (JObj [(''error'', JStr ''Unauthorized: missing or invalid API key'')]))
      else run_command plat res fullUrl)"

text \<open>The body of the \<^verbatim>\<open>try\<close> block after the URL has been parsed, lines 39 to 156.\<close>

definition route :: "platform \<Rightarrow> config \<Rightarrow> request \<Rightarrow> ServerResponse \<Rightarrow> URL \<Rightarrow> outcome" where
  "route plat cfg req res fullUrl =
     (if pathname fullUrl = ''/'' \<or> pathname fullUrl = ''/index.html'' then
        reply (end_response (writeHead res 200 [(''Content-Type'', ''text/html'')])
                 (IndexPage (process_version plat) (PORT cfg) (process_platform plat)
                    \<lfloor>process_uptime plat\<rfloor>))
      else if pathname fullUrl = ''/health'' then
        reply (sendJson res 200
                 (JObj [(''status'', JStr ''healthy''),
                        (''timestamp'', JStr (Date_toISOString plat)),
                        (''uptime_seconds'', JNum (process_uptime plat))]))
      else if pathname fullUrl = ''/cmd'' then cmd_route plat cfg req res fullUrl
      else reply (end_response (writeHead res 404 [(''Content-Type'', ''text/plain'')])
                    (Raw ''Not Found'')))"

text \<open>The base of line 38: \<^verbatim>\<open>`http://${req.headers.host || 'localhost'}`\<close>.\<close>

definition base_of :: "request \<Rightarrow> string" where
  "base_of req = ''http://'' @ str_or (req_headers req ''host'') ''localhost''"

text \<open>The response object once lines 26 to 28 have run.\<close>

definition cors_response :: ServerResponse where
  "cors_response =
     setHeader ''Access-Control-Allow-Headers'' ''Content-Type, x-api-key''
       (setHeader ''Access-Control-Allow-Methods'' ''GET, POST, OPTIONS''
          (setHeader ''Access-Control-Allow-Origin'' ''*'' new_response))"

text \<open>The whole handler. An exception can only come from the URL constructor, the first
  statement of the \<^verbatim>\<open>try\<close> block; the \<^verbatim>\<open>catch\<close> clause is the \<open>Inl\<close> branch.\<close>

definition handler :: "platform \<Rightarrow> config \<Rightarrow> request \<Rightarrow> outcome" where
  "handler plat cfg req =
     (let res = cors_response in
      if req_method req = ''OPTIONS'' then
        reply (end_response (writeHead res 200 []) (Raw []))
      else
        (case URL_new plat (req_url req) (base_of req) of
           Inl e \<Rightarrow> reply (sendJson res 500 (JObj [(''error'', JStr ''Internal server error'')]))
         | Inr fullUrl \<Rightarrow> route plat cfg req res fullUrl))"

section \<open>A concrete platform and concrete requests\<close>

text \<open>The theorems below hold for every platform. To instantiate them, the platforms of
  this section parse the request targets of a small table (any other target is a
  malformed URL) and report runs of the three commands the way Node's \<^verbatim>\<open>exec\<close> does.\<close>

definition sample_targets :: "(string \<times> URL) list" where
  "sample_targets =
     [(''/cmd?command=uptime'', \<lparr> pathname = ''/cmd'', searchParams = [(''command'', ''uptime'')] \<rparr>),
      (''/cmd?command=disk'', \<lparr> pathname = ''/cmd'', searchParams = [(''command'', ''disk'')] \<rparr>),
      (''/cmd?command=memory'', \<lparr> pathname = ''/cmd'', searchParams = [(''command'', ''memory'')] \<rparr>),
      (''/cmd?command=Uptime'', \<lparr> pathname = ''/cmd'', searchParams = [(''command'', ''Uptime'')] \<rparr>),
      (''/cmd?command=toString'', \<lparr> pathname = ''/cmd'', searchParams = [(''command'', ''toString'')] \<rparr>),
      (''/cmd?command='', \<lparr> pathname = ''/cmd'', searchParams = [(''command'', [])] \<rparr>),
      (''/cmd'', \<lparr> pathname = ''/cmd'', searchParams = [] \<rparr>),
      (''/nope'', \<lparr> pathname = ''/nope'', searchParams = [] \<rparr>)]"

definition sample_URL_new :: "string \<Rightarrow> string \<Rightarrow> exn + URL" where
  "sample_URL_new input base =
     (case map_of sample_targets input of
        None \<Rightarrow> Inl (TypeError ''Invalid URL'')
      | Some u \<Rightarrow> Inr u)"

text \<open>The message of the error \<^verbatim>\<open>exec\<close> builds for a run that exits with a non-zero code
  or is killed: \<^verbatim>\<open>`Command failed: ${cmd}\n${stderr}`\<close>; \<open>CHR 0x0A\<close> is the line feed.\<close>

definition command_failed :: "string \<Rightarrow> string \<Rightarrow> string" where
  "command_failed cmd errout = ''Command failed: '' @ cmd @ [CHR 0x0A] @ errout"

text \<open>On the first platform \<^verbatim>\<open>uptime\<close> succeeds, \<^verbatim>\<open>df -h\<close> lists one file system, fails on
  another and exits with code 1 (the error has the code 1 and the signal null), and
  \<^verbatim>\<open>free -m\<close> hangs and is killed by the timeout (code null, signal SIGTERM).\<close>

definition sample_exec :: "string \<Rightarrow> exec_options \<Rightarrow> exec_result" where
  "sample_exec cmd opts =
     (if cmd = ''uptime'' then
        \<lparr> err = None, stdout = ''up 3 days'', stderr = [] \<rparr>
      else if cmd = ''df -h'' then
        \<lparr> err = Some \<lparr> err_message =
                          command_failed ''df -h''
                            (''df: /mnt/backup: Input/output error'' @ [CHR 0x0A]),
                        err_code = JNum 1, err_signal = JNull \<rparr>,
          stdout = ''/dev/sda1 40G 12G 26G 32% /'' @ [CHR 0x0A],
          stderr = ''df: /mnt/backup: Input/output error'' @ [CHR 0x0A] \<rparr>
      else
        \<lparr> err = Some \<lparr> err_message = command_failed ''free -m'' [], err_code = JNull,
                        err_signal = JStr ''SIGTERM'' \<rparr>,
          stdout = [], stderr = [] \<rparr>)"




definition sample_platform :: platform where
  "sample_platform =
     \<lparr> URL_new = sample_URL_new, exec = sample_exec, process_version = ''v20.11.0'',
       process_platform = ''linux'', process_uptime = 12.5,
       Date_toISOString = ''2024-01-01T00:00:00.000Z'' \<rparr>"



text \<open>The two deployments: no admin key, and the admin key \<^verbatim>\<open>secret\<close>.\<close>

definition open_config :: config where
  "open_config = config_of_env \<lparr> env_PORT = None, env_ADMIN_API_KEY = None \<rparr>"

definition keyed_config :: config where
  "keyed_config = config_of_env \<lparr> env_PORT = None, env_ADMIN_API_KEY = Some ''secret'' \<rparr>"

text \<open>A request without headers, and one that carries an \<^verbatim>\<open>x-api-key\<close> header.\<close>

definition plain_request :: "string \<Rightarrow> string \<Rightarrow> request" where
  "plain_request m target = \<lparr> req_method = m, req_url = target, req_headers = Map.empty \<rparr>"

definition keyed_request :: "string \<Rightarrow> string \<Rightarrow> string \<Rightarrow> request" where
  "keyed_request m target k =
     \<lparr> req_method = m, req_url = target, req_headers = [''x-api-key'' \<mapsto> k] \<rparr>"

text \<open>The three headers of lines 26 to 28, and the responses \<^verbatim>\<open>sendJson\<close> and the 404
  branch leave behind, written out.\<close>

definition cors_headers :: "(string \<times> string) list" where
  "cors_headers =
     [(''Access-Control-Allow-Origin'', ''*''),
      (''Access-Control-Allow-Methods'', ''GET, POST, OPTIONS''),
      (''Access-Control-Allow-Headers'', ''Content-Type, x-api-key'')]"

definition json_reply :: "nat \<Rightarrow> jsval \<Rightarrow> ServerResponse" where
  "json_reply c obj =
     \<lparr> statusCode = c,
       res_headers = cors_headers @ [(''Content-Type'', ''application/json'')],
       res_body = Some (JsonText obj) \<rparr>"

definition error_reply :: "nat \<Rightarrow> string \<Rightarrow> outcome" where
  "error_reply c msg =
     \<lparr> response = json_reply c (JObj [(''error'', JStr msg)]), executed = [] \<rparr>"

section \<open>Facts about the pieces of the handler\<close>

lemma cors_response_eq:
  "cors_response = \<lparr> statusCode = 200, res_headers = cors_headers, res_body = None \<rparr>"
  by (simp add: cors_response_def setHeader_def new_response_def cors_headers_def)

lemma sendJson_cors: "sendJson cors_response c obj = json_reply c obj"
  by (simp add: cors_response_eq sendJson_def writeHead_def end_response_def setHeader_def
      json_reply_def cors_headers_def)

lemma reply_error: "reply (sendJson cors_response c (JObj [(''error'', JStr msg)])) = error_reply c msg"
  by (simp add: sendJson_cors reply_def error_reply_def)

lemma handler_options:
  "req_method req = ''OPTIONS'' \<Longrightarrow>
   handler plat cfg req =
     \<lparr> response = \<lparr> statusCode = 200, res_headers = cors_headers, res_body = Some (Raw []) \<rparr>,
       executed = [] \<rparr>"
  by (simp add: handler_def cors_response_eq writeHead_def end_response_def reply_def)


lemma handler_route:
  "req_method req \<noteq> ''OPTIONS'' \<Longrightarrow> URL_new plat (req_url req) (base_of req) = Inr u \<Longrightarrow>
   handler plat cfg req = route plat cfg req cors_response u"
  by (simp add: handler_def)

lemma route_cmd: "pathname u = ''/cmd'' \<Longrightarrow> route plat cfg req res u = cmd_route plat cfg req res u"
  by (simp add: route_def)

lemma route_404:
  "pathname u \<notin> {''/'', ''/index.html'', ''/health'', ''/cmd''} \<Longrightarrow>
   route plat cfg req cors_response u =
     \<lparr> response = \<lparr> statusCode = 404, res_headers = cors_headers @ [(''Content-Type'', ''text/plain'')],
                    res_body = Some (Raw ''Not Found'') \<rparr>, executed = [] \<rparr>"
  by (simp add: route_def cors_response_eq writeHead_def end_response_def setHeader_def reply_def cors_headers_def)



lemma handler_cmd:
  "req_method req \<noteq> ''OPTIONS'' \<Longrightarrow> URL_new plat (req_url req) (base_of req) = Inr u \<Longrightarrow>
   pathname u = ''/cmd'' \<Longrightarrow> handler plat cfg req = cmd_route plat cfg req cors_response u"
  by (simp add: handler_route route_cmd)

lemma cmd_route_405:
  "req_method req \<noteq> ''GET'' \<Longrightarrow>
   cmd_route plat cfg req cors_response u = error_reply 405 ''Method not allowed. Use GET.''"
  by (simp add: cmd_route_def reply_error)

lemma cmd_route_401:
  "req_method req = ''GET'' \<Longrightarrow> \<not> api_key_ok cfg req \<Longrightarrow>
   cmd_route plat cfg req cors_response u =
     error_reply 401 ''Unauthorized: missing or invalid API key''"
  by (simp add: cmd_route_def reply_error)

lemma cmd_route_pass:
  "req_method req = ''GET'' \<Longrightarrow> api_key_ok cfg req \<Longrightarrow>
   cmd_route plat cfg req res u = run_command plat res u"
  by (simp add: cmd_route_def)

lemma run_command_400:
  "searchParams_get u ''command'' = None \<or> searchParams_get u ''command'' = Some [] \<Longrightarrow>
   run_command plat cors_response u = error_reply 400 missing_command_message"
  by (auto simp add: run_command_def reply_error)

lemma run_command_403:
  "searchParams_get u ''command'' = Some c \<Longrightarrow> c \<noteq> [] \<Longrightarrow>
   \<not> hasOwnProperty ALLOWED_COMMANDS c \<Longrightarrow>
   run_command plat cors_response u = error_reply 403 ''Command not allowed''"
  by (simp add: run_command_def reply_error)

lemma hasOwnProperty_ALLOWED:
  "hasOwnProperty ALLOWED_COMMANDS c \<longleftrightarrow> c \<in> {''uptime'', ''disk'', ''memory''}"
  by (auto simp add: hasOwnProperty_def ALLOWED_COMMANDS_def)

lemma allowed_nonempty: "hasOwnProperty ALLOWED_COMMANDS c \<Longrightarrow> c \<noteq> []"
  by (auto simp add: hasOwnProperty_ALLOWED)

lemma allowed_shell:
  "hasOwnProperty ALLOWED_COMMANDS c \<Longrightarrow>
   the (map_of ALLOWED_COMMANDS c) \<in> {''uptime'', ''df -h'', ''free -m''}"
  by (auto simp add: hasOwnProperty_def ALLOWED_COMMANDS_def)

lemma run_command_exec:
  "searchParams_get u ''command'' = Some c \<Longrightarrow> hasOwnProperty ALLOWED_COMMANDS c \<Longrightarrow>
   run_command plat res u =
     (let sh = the (map_of ALLOWED_COMMANDS c);
          opts = \<lparr> timeout = 5000, maxBuffer = 1048576 \<rparr>;
          r = exec plat sh opts
      in \<lparr> response = exec_callback res c (err r) (stdout r) (stderr r),
           executed = [(sh, opts)] \<rparr>)"
  by (simp add: run_command_def allowed_nonempty Let_def)

lemma executed_reply: "executed (reply res) = []"
  by (simp add: reply_def)

lemma run_command_executed:
  "fst ` set (executed (run_command plat res u)) \<subseteq> {''uptime'', ''df -h'', ''free -m''}"
proof (cases "searchParams_get u ''command''")
  case None
  then show ?thesis by (simp add: run_command_def executed_reply)
next
  case (Some c)
  show ?thesis
  proof (cases "hasOwnProperty ALLOWED_COMMANDS c")
    case True
    from allowed_shell [OF True] show ?thesis
      by (simp add: run_command_exec [OF Some True] Let_def)
  next
    case False
    with Some show ?thesis by (simp add: run_command_def executed_reply)
  qed
qed

text \<open>Every call of \<^verbatim>\<open>exec\<close> is given the options of line 126: a timeout of 5000 ms and
  a \<^verbatim>\<open>maxBuffer\<close> of 1024 * 1024 bytes. What \<^verbatim>\<open>exec\<close> does with them is the platform's
  business.\<close>

lemma run_command_options:
  "snd ` set (executed (run_command plat res u)) \<subseteq> {\<lparr> timeout = 5000, maxBuffer = 1048576 \<rparr>}"
proof (cases "searchParams_get u ''command''")
  case None
  then show ?thesis by (simp add: run_command_def executed_reply)
next
  case (Some c)
  show ?thesis
  proof (cases "hasOwnProperty ALLOWED_COMMANDS c")
    case True
    show ?thesis by (simp add: run_command_exec [OF Some True] Let_def)
  next
    case False
    with Some show ?thesis by (simp add: run_command_def executed_reply)
  qed
qed

lemma handler_options_of_exec:
  "snd ` set (executed (handler plat cfg req)) \<subseteq> {\<lparr> timeout = 5000, maxBuffer = 1048576 \<rparr>}"
proof (cases "URL_new plat (req_url req) (base_of req)")
  case (Inl e)
  then show ?thesis by (simp add: handler_def executed_reply)
next
  case (Inr u)
  with run_command_options [of plat cors_response u] show ?thesis
    by (simp add: handler_def route_def cmd_route_def executed_reply)
qed

lemma cmd_route_executed:
  "fst ` set (executed (cmd_route plat cfg req res u)) \<subseteq> {''uptime'', ''df -h'', ''free -m''}"
  using run_command_executed [of plat res u]
  by (simp add: cmd_route_def executed_reply)

lemma route_executed:
  "fst ` set (executed (route plat cfg req res u)) \<subseteq> {''uptime'', ''df -h'', ''free -m''}"
  using cmd_route_executed [of plat cfg req res u]
  by (simp add: route_def executed_reply)

lemma handler_executed:
  "fst ` set (executed (handler plat cfg req)) \<subseteq> {''uptime'', ''df -h'', ''free -m''}"
proof (cases "URL_new plat (req_url req) (base_of req)")
  case (Inl e)
  then show ?thesis by (simp add: handler_def executed_reply)
next
  case (Inr u)
  with route_executed [of plat cfg req cors_response u] show ?thesis
    by (simp add: handler_def executed_reply)
qed

lemma api_key_ok_open: "\<not> REQUIRE_API_KEY cfg \<Longrightarrow> api_key_ok cfg req"
  by (simp add: api_key_ok_def)

lemma config_keyed:
  "env_ADMIN_API_KEY e = Some k \<Longrightarrow> k \<noteq> [] \<Longrightarrow>
   REQUIRE_API_KEY (config_of_env e) \<and> ADMIN_API_KEY (config_of_env e) = k"
  by (simp add: config_of_env_def str_or_def)

lemma config_open:
  "env_ADMIN_API_KEY e = None \<or> env_ADMIN_API_KEY e = Some [] \<Longrightarrow>
   \<not> REQUIRE_API_KEY (config_of_env e)"
  by (auto simp add: config_of_env_def)

lemma api_key_ok_keyed:
  "env_ADMIN_API_KEY e = Some k \<Longrightarrow> k \<noteq> [] \<Longrightarrow>
   api_key_ok (config_of_env e) req \<longleftrightarrow> req_headers req ''x-api-key'' = Some k"
  by (auto simp add: api_key_ok_def config_keyed str_or_def Let_def split: option.splits)

lemma exec_callback_status:
  "statusCode (exec_callback res c er out errout) = 200"
  by (simp add: exec_callback_def sendJson_def writeHead_def end_response_def setHeader_def Let_def
      split: option.splits)

lemma run_command_status:
  "statusCode (response (run_command plat cors_response u)) \<in> {200, 400, 403}"
proof (cases "searchParams_get u ''command''")
  case None
  then show ?thesis by (simp add: run_command_400 error_reply_def json_reply_def)
next
  case (Some c)
  show ?thesis
  proof (cases "hasOwnProperty ALLOWED_COMMANDS c")
    case True
    show ?thesis
      by (simp add: run_command_exec [OF Some True] Let_def exec_callback_status)
  next
    case False
    show ?thesis
    proof (cases "c = []")
      case True
      with Some show ?thesis by (simp add: run_command_400 error_reply_def json_reply_def)
    next
      case nonempty: False
      from run_command_403 [OF Some nonempty False] show ?thesis
        by (simp add: error_reply_def json_reply_def)
    qed
  qed
qed


lemma exec_callback_success:
  "exec_callback cors_response c None out errout =
     json_reply 200
       (JObj [(''command'', JStr c), (''allowed'', JBool True),
              (''stdout'', JStr out), (''stderr'', JStr errout)])"
  by (simp add: exec_callback_def sendJson_cors)







section \<open>The properties of the specification\<close>

lemmas sample_defs = sample_platform_def sample_URL_new_def sample_targets_def sample_exec_def
  plain_request_def keyed_request_def base_of_def str_or_def

text \<open>
  C1. A GET request to \<^verbatim>\<open>/cmd\<close> that passes the method check, the key check and the
  check for a non-empty \<^verbatim>\<open>command\<close> parameter, and whose \<^verbatim>\<open>command\<close> is not exactly
  one of the strings \<^verbatim>\<open>uptime\<close>, \<^verbatim>\<open>disk\<close>, \<^verbatim>\<open>memory\<close>, is answered 403 with the JSON
  body \<^verbatim>\<open>{error: "Command not allowed"}\<close>, and \<^verbatim>\<open>exec\<close> is not called. Whatever the
  request, the platform and the configuration, the only strings ever given to \<^verbatim>\<open>exec\<close>
  are the three shell commands of the registry.
\<close>

theorem registry_gate:
  "(req_method req = ''GET'' \<and> URL_new plat (req_url req) (base_of req) = Inr u \<and>
    pathname u = ''/cmd'' \<and> api_key_ok cfg req \<and>
    searchParams_get u ''command'' = Some c \<and> c \<noteq> [] \<and>
    c \<notin> {''uptime'', ''disk'', ''memory''}
    \<longrightarrow> handler plat cfg req = error_reply 403 ''Command not allowed'') \<and>
   fst ` set (executed (handler plat cfg req)) \<subseteq> {''uptime'', ''df -h'', ''free -m''}"
proof (intro conjI impI)
  assume a: "req_method req = ''GET'' \<and> URL_new plat (req_url req) (base_of req) = Inr u \<and>
    pathname u = ''/cmd'' \<and> api_key_ok cfg req \<and>
    searchParams_get u ''command'' = Some c \<and> c \<noteq> [] \<and>
    c \<notin> {''uptime'', ''disk'', ''memory''}"
  then have m: "req_method req \<noteq> ''OPTIONS''" by simp
  from a have "\<not> hasOwnProperty ALLOWED_COMMANDS c"
    by (simp add: hasOwnProperty_ALLOWED)
  with a have "run_command plat cors_response u = error_reply 403 ''Command not allowed''"
    by (simp add: run_command_403)
  with a m show "handler plat cfg req = error_reply 403 ''Command not allowed''"
    by (simp add: handler_cmd cmd_route_pass)
next
  show "fst ` set (executed (handler plat cfg req)) \<subseteq> {''uptime'', ''df -h'', ''free -m''}"
    by (rule handler_executed)
qed

theorem registry_gate_witness:
  "req_method (plain_request ''GET'' ''/cmd?command=Uptime'') = ''GET'' \<and>
   URL_new sample_platform (req_url (plain_request ''GET'' ''/cmd?command=Uptime''))
     (base_of (plain_request ''GET'' ''/cmd?command=Uptime''))
     = Inr \<lparr> pathname = ''/cmd'', searchParams = [(''command'', ''Uptime'')] \<rparr> \<and>
   api_key_ok open_config (plain_request ''GET'' ''/cmd?command=Uptime'') \<and>
   searchParams_get \<lparr> pathname = ''/cmd'', searchParams = [(''command'', ''Uptime'')] \<rparr> ''command''
     = Some ''Uptime'' \<and>
   ''Uptime'' \<notin> {''uptime'', ''disk'', ''memory''} \<and>
   handler sample_platform open_config (plain_request ''GET'' ''/cmd?command=Uptime'')
     = error_reply 403 ''Command not allowed'' \<and>
   executed (handler sample_platform open_config (plain_request ''GET'' ''/cmd?command=uptime''))
     = [(''uptime'', \<lparr> timeout = 5000, maxBuffer = 1048576 \<rparr>)]"
proof -
  let ?req = "plain_request ''GET'' ''/cmd?command=Uptime''"
  let ?u = "\<lparr> pathname = ''/cmd'', searchParams = [(''command'', ''Uptime'')] \<rparr>"
  have h1: "req_method ?req = ''GET''" by (simp add: plain_request_def)
  have h2: "URL_new sample_platform (req_url ?req) (base_of ?req) = Inr ?u"
    by (simp add: sample_defs)
  have h3: "api_key_ok open_config ?req"
    by (simp add: api_key_ok_def open_config_def config_of_env_def)
  have h4: "searchParams_get ?u ''command'' = Some ''Uptime''"
    by (simp add: searchParams_get_def)
  have h5: "''Uptime'' \<notin> {''uptime'', ''disk'', ''memory''}" by simp
  have h6: "executed (handler sample_platform open_config (plain_request ''GET'' ''/cmd?command=uptime''))
     = [(''uptime'', \<lparr> timeout = 5000, maxBuffer = 1048576 \<rparr>)]"
    by (simp add: handler_def route_def cmd_route_def run_command_def sample_defs
        api_key_ok_def open_config_def config_of_env_def searchParams_get_def
        hasOwnProperty_def ALLOWED_COMMANDS_def Let_def)
  from registry_gate [of ?req sample_platform ?u open_config "''Uptime''"] h1 h2 h3 h4 h5 h6
  show ?thesis by simp
qed

text \<open>
  C2. When the admin key was configured as a non-empty string \<open>k\<close>, a GET request to
  \<^verbatim>\<open>/cmd\<close> whose \<^verbatim>\<open>x-api-key\<close> header is missing or is not exactly \<open>k\<close> is answered 401
  with the JSON body \<^verbatim>\<open>{error: "Unauthorized: missing or invalid API key"}\<close> and nothing is
  executed; a request whose header is exactly \<open>k\<close> passes on to the parameter checks
  (so its status is not 401). When the key was not configured, every GET request to
  \<^verbatim>\<open>/cmd\<close> passes on to the parameter checks.
\<close>

theorem api_key_check:
  "req_method req = ''GET'' \<and> URL_new plat (req_url req) (base_of req) = Inr u \<and>
   pathname u = ''/cmd'' \<longrightarrow>
   (env_ADMIN_API_KEY e = Some k \<and> k \<noteq> [] \<longrightarrow>
      (req_headers req ''x-api-key'' \<noteq> Some k \<longrightarrow>
         handler plat (config_of_env e) req =
           error_reply 401 ''Unauthorized: missing or invalid API key'') \<and>
      (req_headers req ''x-api-key'' = Some k \<longrightarrow>
         handler plat (config_of_env e) req = run_command plat cors_response u \<and>
         statusCode (response (handler plat (config_of_env e) req)) \<noteq> 401)) \<and>
   (env_ADMIN_API_KEY e = None \<longrightarrow>
      handler plat (config_of_env e) req = run_command plat cors_response u \<and>
      statusCode (response (handler plat (config_of_env e) req)) \<noteq> 401)"
proof (intro impI)
  assume a: "req_method req = ''GET'' \<and> URL_new plat (req_url req) (base_of req) = Inr u \<and>
    pathname u = ''/cmd''"
  then have h: "handler plat cfg req = cmd_route plat cfg req cors_response u" for cfg
    by (simp add: handler_cmd)
  have s: "statusCode (response (run_command plat cors_response u)) \<noteq> 401"
    using run_command_status [of plat u] by auto
  show "(env_ADMIN_API_KEY e = Some k \<and> k \<noteq> [] \<longrightarrow>
      (req_headers req ''x-api-key'' \<noteq> Some k \<longrightarrow>
         handler plat (config_of_env e) req =
           error_reply 401 ''Unauthorized: missing or invalid API key'') \<and>
      (req_headers req ''x-api-key'' = Some k \<longrightarrow>
         handler plat (config_of_env e) req = run_command plat cors_response u \<and>
         statusCode (response (handler plat (config_of_env e) req)) \<noteq> 401)) \<and>
   (env_ADMIN_API_KEY e = None \<longrightarrow>
      handler plat (config_of_env e) req = run_command plat cors_response u \<and>
      statusCode (response (handler plat (config_of_env e) req)) \<noteq> 401)"
  proof (intro conjI impI)
    assume k: "env_ADMIN_API_KEY e = Some k \<and> k \<noteq> []" and "req_headers req ''x-api-key'' \<noteq> Some k"
    then have "\<not> api_key_ok (config_of_env e) req" by (simp add: api_key_ok_keyed)
    with a show "handler plat (config_of_env e) req =
        error_reply 401 ''Unauthorized: missing or invalid API key''"
      by (simp add: h cmd_route_401)
  next
    assume k: "env_ADMIN_API_KEY e = Some k \<and> k \<noteq> []" and "req_headers req ''x-api-key'' = Some k"
    then have "api_key_ok (config_of_env e) req" by (simp add: api_key_ok_keyed)
    with a show p: "handler plat (config_of_env e) req = run_command plat cors_response u"
      by (simp add: h cmd_route_pass)
    show "statusCode (response (handler plat (config_of_env e) req)) \<noteq> 401"
      using s by (simp add: p)
  next
    assume "env_ADMIN_API_KEY e = None"
    then have "api_key_ok (config_of_env e) req" by (simp add: api_key_ok_open config_open)
    with a show p: "handler plat (config_of_env e) req = run_command plat cors_response u"
      by (simp add: h cmd_route_pass)
    show "statusCode (response (handler plat (config_of_env e) req)) \<noteq> 401"
      using s by (simp add: p)
  qed
qed

theorem api_key_check_witness:
  "handler sample_platform keyed_config (plain_request ''GET'' ''/cmd?command=uptime'')
     = error_reply 401 ''Unauthorized: missing or invalid API key'' \<and>
   handler sample_platform keyed_config (keyed_request ''GET'' ''/cmd?command=uptime'' ''wrong'')
     = error_reply 401 ''Unauthorized: missing or invalid API key'' \<and>
   statusCode (response
     (handler sample_platform keyed_config (keyed_request ''GET'' ''/cmd?command=uptime'' ''secret'')))
     = 200 \<and>
   statusCode (response
     (handler sample_platform open_config (plain_request ''GET'' ''/cmd?command=uptime'')))
     = 200"
proof -
  let ?u = "\<lparr> pathname = ''/cmd'', searchParams = [(''command'', ''uptime'')] \<rparr>"
  let ?keyed = "\<lparr> env_PORT = None, env_ADMIN_API_KEY = Some ''secret'' \<rparr>"
  let ?open = "\<lparr> env_PORT = None, env_ADMIN_API_KEY = None \<rparr>"
  have r: "statusCode (response (run_command sample_platform cors_response ?u)) = 200"
    by (simp add: run_command_def searchParams_get_def hasOwnProperty_def ALLOWED_COMMANDS_def
        exec_callback_status Let_def)
  have 1: "handler sample_platform keyed_config (plain_request ''GET'' ''/cmd?command=uptime'')
     = error_reply 401 ''Unauthorized: missing or invalid API key''"
    using api_key_check [of "plain_request ''GET'' ''/cmd?command=uptime''" sample_platform ?u
        ?keyed "''secret''"]
    by (simp add: sample_defs keyed_config_def)
  have 2: "handler sample_platform keyed_config (keyed_request ''GET'' ''/cmd?command=uptime'' ''wrong'')
     = error_reply 401 ''Unauthorized: missing or invalid API key''"
    using api_key_check [of "keyed_request ''GET'' ''/cmd?command=uptime'' ''wrong''"
        sample_platform ?u ?keyed "''secret''"]
    by (simp add: sample_defs keyed_config_def)
  have 3: "statusCode (response
     (handler sample_platform keyed_config (keyed_request ''GET'' ''/cmd?command=uptime'' ''secret'')))
     = 200"
    using api_key_check [of "keyed_request ''GET'' ''/cmd?command=uptime'' ''secret''"
        sample_platform ?u ?keyed "''secret''"] r
    by (simp add: sample_defs keyed_config_def)
  have 4: "statusCode (response
     (handler sample_platform open_config (plain_request ''GET'' ''/cmd?command=uptime'')))
     = 200"
    using api_key_check [of "plain_request ''GET'' ''/cmd?command=uptime''" sample_platform ?u ?open] r
    by (simp add: sample_defs open_config_def)
  from 1 2 3 4 show ?thesis by simp
qed







text \<open>
  C7. When the command of an accepted request is in the registry and \<^verbatim>\<open>exec\<close> reports no
  error, the status is 200 and the JSON body is the object with exactly the four fields
  \<^verbatim>\<open>command\<close> (the requested key), \<^verbatim>\<open>allowed: true\<close>, \<^verbatim>\<open>stdout\<close> and \<^verbatim>\<open>stderr\<close>, both
  streams as strings (the empty string for an empty stream); it has no \<^verbatim>\<open>error\<close>,
  \<^verbatim>\<open>exitCode\<close> or \<^verbatim>\<open>signal\<close> field.
\<close>

theorem successful_command_response:
  "req_method req = ''GET'' \<and> URL_new plat (req_url req) (base_of req) = Inr u \<and>
   pathname u = ''/cmd'' \<and> api_key_ok cfg req \<and>
   searchParams_get u ''command'' = Some c \<and> hasOwnProperty ALLOWED_COMMANDS c \<and>
   exec plat (the (map_of ALLOWED_COMMANDS c)) \<lparr> timeout = 5000, maxBuffer = 1048576 \<rparr> = r \<and>
   err r = None
   \<longrightarrow>
   (\<exists>fields.
      response (handler plat cfg req) = json_reply 200 (JObj fields) \<and>
      fields = [(''command'', JStr c), (''allowed'', JBool True),
                (''stdout'', JStr (stdout r)), (''stderr'', JStr (stderr r))] \<and>
      map_of fields ''error'' = None \<and> map_of fields ''exitCode'' = None \<and>
      map_of fields ''signal'' = None)"
proof (intro impI)
  assume a: "req_method req = ''GET'' \<and> URL_new plat (req_url req) (base_of req) = Inr u \<and>
   pathname u = ''/cmd'' \<and> api_key_ok cfg req \<and>
   searchParams_get u ''command'' = Some c \<and> hasOwnProperty ALLOWED_COMMANDS c \<and>
   exec plat (the (map_of ALLOWED_COMMANDS c)) \<lparr> timeout = 5000, maxBuffer = 1048576 \<rparr> = r \<and>
   err r = None"
  then have "handler plat cfg req = run_command plat cors_response u"
    by (simp add: handler_cmd cmd_route_pass)
  with a have "response (handler plat cfg req) =
      exec_callback cors_response c None (stdout r) (stderr r)"
    by (simp add: run_command_exec Let_def)
  then show "\<exists>fields.
      response (handler plat cfg req) = json_reply 200 (JObj fields) \<and>
      fields = [(''command'', JStr c), (''allowed'', JBool True),
                (''stdout'', JStr (stdout r)), (''stderr'', JStr (stderr r))] \<and>
      map_of fields ''error'' = None \<and> map_of fields ''exitCode'' = None \<and>
      map_of fields ''signal'' = None"
    by (simp add: exec_callback_success)
qed

theorem successful_command_response_witness:
  "response (handler sample_platform open_config (plain_request ''GET'' ''/cmd?command=uptime'')) =
     json_reply 200
       (JObj [(''command'', JStr ''uptime''), (''allowed'', JBool True),
              (''stdout'', JStr ''up 3 days''), (''stderr'', JStr [])])"
proof -
  have ok: "api_key_ok open_config rq" for rq
    by (simp add: api_key_ok_def open_config_def config_of_env_def)
  show ?thesis
    using successful_command_response [of "plain_request ''GET'' ''/cmd?command=uptime''"
        sample_platform "\<lparr> pathname = ''/cmd'', searchParams = [(''command'', ''uptime'')] \<rparr>"
        open_config "''uptime''" "sample_exec ''uptime'' \<lparr> timeout = 5000, maxBuffer = 1048576 \<rparr>"]
      ok
    by (simp add: sample_defs searchParams_get_def hasOwnProperty_def ALLOWED_COMMANDS_def)
qed

text \<open>
  C5. In the \<^verbatim>\<open>/cmd\<close> block the checks come in this order, and the first one that fails
  decides the response and nothing is executed: a method other than GET gives 405 with
  \<^verbatim>\<open>{error: "Method not allowed. Use GET."}\<close>, whatever the key and the parameter; then a
  failed key check gives 401, whatever the parameter; then an absent or empty
  \<^verbatim>\<open>command\<close> gives 400 with \<^verbatim>\<open>{error: 'Missing "command" query parameter'}\<close>; then a
  \<^verbatim>\<open>command\<close> that is not a key of the registry gives 403. The handler enters the block,
  and answers what the block answers, for every request that is not a pre-flight and
  whose URL parses with the path \<^verbatim>\<open>/cmd\<close>.
\<close>

theorem cmd_check_order:
  "(req_method req \<noteq> ''GET'' \<longrightarrow>
      cmd_route plat cfg req cors_response u =
        error_reply 405 ''Method not allowed. Use GET.'') \<and>
   (req_method req = ''GET'' \<and> \<not> api_key_ok cfg req \<longrightarrow>
      cmd_route plat cfg req cors_response u =
        error_reply 401 ''Unauthorized: missing or invalid API key'') \<and>
   (req_method req = ''GET'' \<and> api_key_ok cfg req \<and>
    (searchParams_get u ''command'' = None \<or> searchParams_get u ''command'' = Some []) \<longrightarrow>
      cmd_route plat cfg req cors_response u = error_reply 400 missing_command_message) \<and>
   (req_method req = ''GET'' \<and> api_key_ok cfg req \<and>
    searchParams_get u ''command'' = Some c \<and> c \<noteq> [] \<and> \<not> hasOwnProperty ALLOWED_COMMANDS c \<longrightarrow>
      cmd_route plat cfg req cors_response u = error_reply 403 ''Command not allowed'') \<and>
   (req_method req \<noteq> ''OPTIONS'' \<and> URL_new plat (req_url req) (base_of req) = Inr u \<and>
    pathname u = ''/cmd'' \<longrightarrow>
      handler plat cfg req = cmd_route plat cfg req cors_response u)"
proof -
  have 1: "req_method req \<noteq> ''GET'' \<longrightarrow>
      cmd_route plat cfg req cors_response u =
        error_reply 405 ''Method not allowed. Use GET.''"
    by (simp add: cmd_route_405)
  have 2: "req_method req = ''GET'' \<and> \<not> api_key_ok cfg req \<longrightarrow>
      cmd_route plat cfg req cors_response u =
        error_reply 401 ''Unauthorized: missing or invalid API key''"
    by (simp add: cmd_route_401)
  have 3: "req_method req = ''GET'' \<and> api_key_ok cfg req \<and>
    (searchParams_get u ''command'' = None \<or> searchParams_get u ''command'' = Some []) \<longrightarrow>
      cmd_route plat cfg req cors_response u = error_reply 400 missing_command_message"
    using run_command_400 [of u plat] by (auto simp add: cmd_route_pass)
  have 4: "req_method req = ''GET'' \<and> api_key_ok cfg req \<and>
    searchParams_get u ''command'' = Some c \<and> c \<noteq> [] \<and> \<not> hasOwnProperty ALLOWED_COMMANDS c \<longrightarrow>
      cmd_route plat cfg req cors_response u = error_reply 403 ''Command not allowed''"
    by (simp add: cmd_route_pass run_command_403)
  have 5: "req_method req \<noteq> ''OPTIONS'' \<and> URL_new plat (req_url req) (base_of req) = Inr u \<and>
    pathname u = ''/cmd'' \<longrightarrow>
      handler plat cfg req = cmd_route plat cfg req cors_response u"
    by (simp add: handler_cmd)
  from 1 2 3 4 5 show ?thesis by blast
qed

text \<open>The instances named in the claim: a POST to \<^verbatim>\<open>/cmd\<close> without \<^verbatim>\<open>command\<close> is a 405
  (also without the key, under a configured key), and a GET without key and without
  \<^verbatim>\<open>command\<close> under a configured key is a 401; then the 400 and the 403.\<close>

theorem cmd_check_order_witness:
  "handler sample_platform open_config (plain_request ''POST'' ''/cmd'')
     = error_reply 405 ''Method not allowed. Use GET.'' \<and>
   handler sample_platform keyed_config (plain_request ''POST'' ''/cmd'')
     = error_reply 405 ''Method not allowed. Use GET.'' \<and>
   handler sample_platform keyed_config (plain_request ''GET'' ''/cmd'')
     = error_reply 401 ''Unauthorized: missing or invalid API key'' \<and>
   handler sample_platform keyed_config (keyed_request ''GET'' ''/cmd'' ''secret'')
     = error_reply 400 missing_command_message \<and>
   handler sample_platform keyed_config (keyed_request ''GET'' ''/cmd?command='' ''secret'')
     = error_reply 400 missing_command_message \<and>
   handler sample_platform keyed_config (keyed_request ''GET'' ''/cmd?command=Uptime'' ''secret'')
     = error_reply 403 ''Command not allowed''"
proof -
  let ?none = "\<lparr> pathname = ''/cmd'', searchParams = [] \<rparr>"
  let ?empty = "\<lparr> pathname = ''/cmd'', searchParams = [(''command'', [])] \<rparr>"
  let ?upper = "\<lparr> pathname = ''/cmd'', searchParams = [(''command'', ''Uptime'')] \<rparr>"
  note cfg = api_key_ok_def open_config_def keyed_config_def config_of_env_def
  have 1: "handler sample_platform open_config (plain_request ''POST'' ''/cmd'')
     = error_reply 405 ''Method not allowed. Use GET.''"
    using cmd_check_order [where req = "plain_request ''POST'' ''/cmd''" and plat = sample_platform
        and u = ?none and cfg = open_config]
    by (simp add: sample_defs)
  have 2: "handler sample_platform keyed_config (plain_request ''POST'' ''/cmd'')
     = error_reply 405 ''Method not allowed. Use GET.''"
    using cmd_check_order [where req = "plain_request ''POST'' ''/cmd''" and plat = sample_platform
        and u = ?none and cfg = keyed_config]
    by (simp add: sample_defs)
  have 3: "handler sample_platform keyed_config (plain_request ''GET'' ''/cmd'')
     = error_reply 401 ''Unauthorized: missing or invalid API key''"
    using cmd_check_order [where req = "plain_request ''GET'' ''/cmd''" and plat = sample_platform
        and u = ?none and cfg = keyed_config]
    by (simp add: sample_defs cfg)
  have 4: "handler sample_platform keyed_config (keyed_request ''GET'' ''/cmd'' ''secret'')
     = error_reply 400 missing_command_message"
    using cmd_check_order [where req = "keyed_request ''GET'' ''/cmd'' ''secret''"
        and plat = sample_platform and u = ?none and cfg = keyed_config]
    by (simp add: sample_defs cfg searchParams_get_def)
  have 5: "handler sample_platform keyed_config (keyed_request ''GET'' ''/cmd?command='' ''secret'')
     = error_reply 400 missing_command_message"
    using cmd_check_order [where req = "keyed_request ''GET'' ''/cmd?command='' ''secret''"
        and plat = sample_platform and u = ?empty and cfg = keyed_config]
    by (simp add: sample_defs cfg searchParams_get_def)
  have 6: "handler sample_platform keyed_config (keyed_request ''GET'' ''/cmd?command=Uptime'' ''secret'')
     = error_reply 403 ''Command not allowed''"
    using cmd_check_order [where req = "keyed_request ''GET'' ''/cmd?command=Uptime'' ''secret''"
        and plat = sample_platform and u = ?upper and cfg = keyed_config and c = "''Uptime''"]
    by (simp add: sample_defs cfg searchParams_get_def hasOwnProperty_def ALLOWED_COMMANDS_def)
  from 1 2 3 4 5 6 show ?thesis by simp
qed

text \<open>
  C6. A \<^verbatim>\<open>command\<close> value that names a property an object literal inherits from
  \<^verbatim>\<open>Object.prototype\<close> (\<^verbatim>\<open>toString\<close>, \<^verbatim>\<open>constructor\<close>, \<^verbatim>\<open>hasOwnProperty\<close>, \<^verbatim>\<open>__proto__\<close>
  and the others) is not an own key of the registry: the request is answered 403 and
  nothing is executed, although the \<^verbatim>\<open>in\<close> operator would have found the name.
\<close>

theorem inherited_property_rejected:
  "req_method req = ''GET'' \<and> URL_new plat (req_url req) (base_of req) = Inr u \<and>
   pathname u = ''/cmd'' \<and> api_key_ok cfg req \<and>
   searchParams_get u ''command'' = Some c \<and> c \<in> set Object_prototype_properties
   \<longrightarrow>
   js_in c ALLOWED_COMMANDS \<and> \<not> hasOwnProperty ALLOWED_COMMANDS c \<and>
   handler plat cfg req = error_reply 403 ''Command not allowed''"
proof (intro impI)
  assume a: "req_method req = ''GET'' \<and> URL_new plat (req_url req) (base_of req) = Inr u \<and>
   pathname u = ''/cmd'' \<and> api_key_ok cfg req \<and>
   searchParams_get u ''command'' = Some c \<and> c \<in> set Object_prototype_properties"
  then have own: "\<not> hasOwnProperty ALLOWED_COMMANDS c" and ne: "c \<noteq> []"
    by (auto simp add: hasOwnProperty_ALLOWED Object_prototype_properties_def)
  from a have "handler plat cfg req = run_command plat cors_response u"
    by (simp add: handler_cmd cmd_route_pass)
  with a own ne show "js_in c ALLOWED_COMMANDS \<and> \<not> hasOwnProperty ALLOWED_COMMANDS c \<and>
      handler plat cfg req = error_reply 403 ''Command not allowed''"
    by (simp add: run_command_403 js_in_def)
qed

theorem inherited_property_rejected_witness:
  "''toString'' \<in> set Object_prototype_properties \<and>
   handler sample_platform open_config (plain_request ''GET'' ''/cmd?command=toString'')
     = error_reply 403 ''Command not allowed''"
  using inherited_property_rejected [of "plain_request ''GET'' ''/cmd?command=toString''"
      sample_platform "\<lparr> pathname = ''/cmd'', searchParams = [(''command'', ''toString'')] \<rparr>"
      open_config "''toString''"]
  by (simp add: sample_defs api_key_ok_def open_config_def config_of_env_def searchParams_get_def
      Object_prototype_properties_def)



text \<open>
  C9. A request with the method OPTIONS, whatever its URL, its headers, the platform and
  the configuration, is answered 200 with an empty body and the three CORS headers; the
  URL is not parsed and nothing is executed.
\<close>

theorem options_preflight:
  "req_method req = ''OPTIONS'' \<longrightarrow>
   handler plat cfg req =
     \<lparr> response =
         \<lparr> statusCode = 200,
           res_headers =
             [(''Access-Control-Allow-Origin'', ''*''),
              (''Access-Control-Allow-Methods'', ''GET, POST, OPTIONS''),
              (''Access-Control-Allow-Headers'', ''Content-Type, x-api-key'')],
           res_body = Some (Raw []) \<rparr>,
       executed = [] \<rparr>"
  by (simp add: handler_options cors_headers_def)

theorem options_preflight_witness:
  "handler sample_platform keyed_config (plain_request ''OPTIONS'' ''/cmd?command=uptime'') =
     \<lparr> response =
         \<lparr> statusCode = 200,
           res_headers =
             [(''Access-Control-Allow-Origin'', ''*''),
              (''Access-Control-Allow-Methods'', ''GET, POST, OPTIONS''),
              (''Access-Control-Allow-Headers'', ''Content-Type, x-api-key'')],
           res_body = Some (Raw []) \<rparr>,
       executed = [] \<rparr> \<and>
   response (handler sample_platform open_config (plain_request ''OPTIONS'' ''//''))
     = \<lparr> statusCode = 200, res_headers = cors_headers, res_body = Some (Raw []) \<rparr>"
  using options_preflight [of "plain_request ''OPTIONS'' ''/cmd?command=uptime''" sample_platform
      keyed_config]
    options_preflight [of "plain_request ''OPTIONS'' ''//''" sample_platform open_config]
  by (simp add: plain_request_def cors_headers_def)

text \<open>
  C10. A request that is not a pre-flight and whose URL parses with a path other than
  \<^verbatim>\<open>/\<close>, \<^verbatim>\<open>/index.html\<close>, \<^verbatim>\<open>/health\<close> and \<^verbatim>\<open>/cmd\<close> is answered 404 with the content type
  \<^verbatim>\<open>text/plain\<close> and the body \<^verbatim>\<open>Not Found\<close>.
\<close>

theorem not_found:
  "req_method req \<noteq> ''OPTIONS'' \<and> URL_new plat (req_url req) (base_of req) = Inr u \<and>
   pathname u \<notin> {''/'', ''/index.html'', ''/health'', ''/cmd''}
   \<longrightarrow>
   handler plat cfg req =
     \<lparr> response =
         \<lparr> statusCode = 404,
           res_headers = cors_headers @ [(''Content-Type'', ''text/plain'')],
           res_body = Some (Raw ''Not Found'') \<rparr>,
       executed = [] \<rparr>"
  using route_404 [of u plat cfg req] by (simp add: handler_route)

theorem not_found_witness:
  "handler sample_platform keyed_config (plain_request ''PUT'' ''/nope'') =
     \<lparr> response =
         \<lparr> statusCode = 404,
           res_headers = cors_headers @ [(''Content-Type'', ''text/plain'')],
           res_body = Some (Raw ''Not Found'') \<rparr>,
       executed = [] \<rparr>"
  using not_found [of "plain_request ''PUT'' ''/nope''" sample_platform
      "\<lparr> pathname = ''/nope'', searchParams = [] \<rparr>" keyed_config]
  by (simp add: sample_defs)

end
